theory Spec2Isabelle
  imports Main "HOL-Library.Multiset"
begin

section \<open>Python values, exceptions and the built-in operations the program uses\<close>

text \<open>
  The program (\<^verbatim>\<open>p1.py\<close>) probes objects handed to it by an external client library
  with \<^verbatim>\<open>getattr\<close>, truth tests, \<^verbatim>\<open>in\<close>, \<^verbatim>\<open>len\<close>, indexing and
  \<^verbatim>\<open>isinstance(_, str)\<close>. A value is one of Python's \<^verbatim>\<open>None\<close>, a \<^verbatim>\<open>bool\<close>, an
  \<^verbatim>\<open>int\<close>, a \<^verbatim>\<open>str\<close>, a \<^verbatim>\<open>list\<close>, or a plain object given by its identity
  (the number that \<^verbatim>\<open>id\<close> returns: two objects are the same object exactly when their
  identities are equal), its class name and its instance attributes (no special methods
  of its own: it is truthy, hashed and compared by identity, and has neither a length nor
  items nor a membership test).
  A \<^verbatim>\<open>str\<close> is the list of its characters; \<^typ>\<open>char\<close> covers the code points below 256.
\<close>

datatype pyval =
    PNone
  | PBool bool
  | PInt int
  | PStr string
  | PList "pyval list"
  | PObj nat string "(string \<times> pyval) list"

text \<open>
  An exception (an instance of \<^verbatim>\<open>Exception\<close>, which is what both handlers of the program
  catch) is its class name and the text \<^verbatim>\<open>str(e)\<close>.
\<close>

datatype exn = Raise string string

fun exn_str :: "exn \<Rightarrow> string" where
  "exn_str (Raise cls msg) = msg"

fun type_name :: "pyval \<Rightarrow> string" where
  "type_name PNone = ''NoneType''"
| "type_name (PBool b) = ''bool''"
| "type_name (PInt i) = ''int''"
| "type_name (PStr s) = ''str''"
| "type_name (PList xs) = ''list''"
| "type_name (PObj ident cls attrs) = cls"

text \<open>The truth value of an object, as \<^verbatim>\<open>not x\<close>, \<^verbatim>\<open>x and y\<close>, \<^verbatim>\<open>x or y\<close> and \<^verbatim>\<open>if x\<close> test it.\<close>

fun truthy :: "pyval \<Rightarrow> bool" where
  "truthy PNone = False"
| "truthy (PBool b) = b"
| "truthy (PInt i) = (i \<noteq> 0)"
| "truthy (PStr s) = (s \<noteq> [])"
| "truthy (PList xs) = (xs \<noteq> [])"
| "truthy (PObj ident cls attrs) = True"

definition py_or :: "pyval \<Rightarrow> pyval \<Rightarrow> pyval" where
  "py_or a b = (if truthy a then a else b)"

text \<open>
  \<^verbatim>\<open>getattr(obj, name, default)\<close>. The program asks for five names only
  (\<^verbatim>\<open>supported_generation_methods\<close>, \<^verbatim>\<open>name\<close>, \<^verbatim>\<open>text\<close>, \<^verbatim>\<open>candidates\<close>,
  \<^verbatim>\<open>content\<close>), none of which is an attribute of \<^verbatim>\<open>None\<close>, \<^verbatim>\<open>bool\<close>, \<^verbatim>\<open>int\<close>,
  \<^verbatim>\<open>str\<close> or \<^verbatim>\<open>list\<close>; on those the default comes back.
\<close>

fun getattr :: "pyval \<Rightarrow> string \<Rightarrow> pyval \<Rightarrow> pyval" where
  "getattr (PObj ident cls attrs) a d = (case map_of attrs a of None \<Rightarrow> d | Some v \<Rightarrow> v)"
| "getattr v a d = d"

fun is_prefix :: "string \<Rightarrow> string \<Rightarrow> bool" where
  "is_prefix [] s = True"
| "is_prefix (c # cs) [] = False"
| "is_prefix (c # cs) (d # ds) = (c = d \<and> is_prefix cs ds)"

text \<open>\<^verbatim>\<open>sub in s\<close> on two strings: \<^verbatim>\<open>sub\<close> occurs in \<^verbatim>\<open>s\<close> as a contiguous run.\<close>

fun str_contains :: "string \<Rightarrow> string \<Rightarrow> bool" where
  "str_contains sub [] = (sub = [])"
| "str_contains sub (c # cs) = (is_prefix sub (c # cs) \<or> str_contains sub cs)"

text \<open>
  \<^verbatim>\<open>needle in container\<close> for a string needle: membership by \<^verbatim>\<open>==\<close> in a list, substring
  test in a string, \<^verbatim>\<open>TypeError\<close> on a value that is no container.
\<close>

fun py_contains :: "string \<Rightarrow> pyval \<Rightarrow> exn + bool" where
  "py_contains needle (PList xs) = Inr (List.member xs (PStr needle))"
| "py_contains needle (PStr s) = Inr (str_contains needle s)"
| "py_contains needle v =
     Inl (Raise ''TypeError'' (''argument of type '' @ [CHR 0x27] @ type_name v @ [CHR 0x27] @ '' is not iterable''))"

fun py_len :: "pyval \<Rightarrow> exn + nat" where
  "py_len (PStr s) = Inr (length s)"
| "py_len (PList xs) = Inr (length xs)"
| "py_len v =
     Inl (Raise ''TypeError'' (''object of type '' @ [CHR 0x27] @ type_name v @ [CHR 0x27] @ '' has no len()''))"

text \<open>\<^verbatim>\<open>container[0]\<close>.\<close>

fun py_getitem0 :: "pyval \<Rightarrow> exn + pyval" where
  "py_getitem0 (PList (x # xs)) = Inr x"
| "py_getitem0 (PList []) = Inl (Raise ''IndexError'' ''list index out of range'')"
| "py_getitem0 (PStr (c # cs)) = Inr (PStr [c])"
| "py_getitem0 (PStr []) = Inl (Raise ''IndexError'' ''string index out of range'')"
| "py_getitem0 v =
     Inl (Raise ''TypeError'' ([CHR 0x27] @ type_name v @ [CHR 0x27] @ '' object is not subscriptable''))"

text \<open>
  \<^verbatim>\<open>str.isspace\<close> on one character, for the code points below 256: tab, line feed,
  vertical tab, form feed, carriage return, the four separators \<^verbatim>\<open>0x1c\<close> to \<^verbatim>\<open>0x1f\<close>, the
  space, \<^verbatim>\<open>0x85\<close> and \<^verbatim>\<open>0xa0\<close>.
\<close>

definition py_isspace :: "char \<Rightarrow> bool" where
  "py_isspace c = List.member [9, 10, 11, 12, 13, 28, 29, 30, 31, 32, 133, 160] (of_char c :: nat)"

text \<open>\<^verbatim>\<open>s.strip()\<close>: whitespace is dropped from the left end, then from the right end.\<close>

definition strip :: "string \<Rightarrow> string" where
  "strip s = rev (dropWhile py_isspace (rev (dropWhile py_isspace s)))"

text \<open>
  Dictionary keys. \<^verbatim>\<open>==\<close> on two hashable values: two plain objects are equal when
  they are the same object, a \<^verbatim>\<open>bool\<close> equals the \<^verbatim>\<open>int\<close> of the same value, anything
  else equals only itself.
\<close>

fun py_num :: "pyval \<Rightarrow> int option" where
  "py_num (PBool b) = Some (if b then 1 else 0)"
| "py_num (PInt i) = Some i"
| "py_num v = None"

fun py_eq :: "pyval \<Rightarrow> pyval \<Rightarrow> bool" where
  "py_eq (PObj i cls attrs) (PObj j cls' attrs') = (i = j)"
| "py_eq a b = (case (py_num a, py_num b) of (Some x, Some y) \<Rightarrow> x = y | _ \<Rightarrow> a = b)"

text \<open>
  The dict \<^verbatim>\<open>valid\<close> only ever maps a key to \<^verbatim>\<open>True\<close>, so it is the list of its keys
  in insertion order. \<^verbatim>\<open>key in valid\<close> looks for an equal key; \<^verbatim>\<open>valid[key] = True\<close>
  raises on an unhashable key (a list), keeps the dict when an equal key is there, and
  appends the key otherwise.
\<close>

definition dict_contains :: "pyval list \<Rightarrow> pyval \<Rightarrow> bool" where
  "dict_contains d k = list_ex (py_eq k) d"

fun dict_set_true :: "pyval list \<Rightarrow> pyval \<Rightarrow> exn + pyval list" where
  "dict_set_true d (PList xs) = Inl (Raise ''TypeError'' (''unhashable type: '' @ [CHR 0x27] @ ''list'' @ [CHR 0x27]))"
| "dict_set_true d k = Inr (if dict_contains d k then d else d @ [k])"

section \<open>Model selection\<close>

definition PREFERRED_MODELS :: "string list" where
  "PREFERRED_MODELS =
     [''models/gemini-2.5-pro'',
      ''models/gemini-2.5-flash'',
      ''models/gemini-2.5-flash-lite'',
      ''models/gemini-1.5-pro'',
      ''models/gemini-1.5-pro-latest'']"

text \<open>
  What \<^verbatim>\<open>client.models.list()\<close> does. The call raises, or it returns an iterable
  (line 32: "returns iterable of model metadata"). Iterating the returned value yields
  finitely many entries in order and then either stops or raises: a pager that fails when
  it fetches a later page raises after the entries of the pages before, and a returned
  value that cannot be iterated raises before any entry.
\<close>

datatype listing =
    ListRaises exn
  | ListReturns "pyval list" "exn option"

text \<open>
  The loop of \<^verbatim>\<open>choose_best_model\<close> (lines 38 to 46) over the entries still to come
  and the way the iteration ends, threading the dict \<^verbatim>\<open>valid\<close>. The loop is after the
  \<^verbatim>\<open>try\<close> statement, not inside it: the \<^verbatim>\<open>TypeError\<close> of \<^verbatim>\<open>in\<close>, the one of the
  dict store, and an exception of the iterator all leave the function.
\<close>

fun build_valid :: "pyval list \<Rightarrow> exn option \<Rightarrow> pyval list \<Rightarrow> exn + pyval list" where
  "build_valid [] failure valid = (case failure of None \<Rightarrow> Inr valid | Some e \<Rightarrow> Inl e)"
| "build_valid (m # available) failure valid =
     (let methods = getattr m ''supported_generation_methods'' PNone;
          name = getattr m ''name'' PNone
      in if \<not> truthy name then build_valid available failure valid
         else case (if truthy methods then py_contains ''generateContent'' methods else Inr False) of
                Inl e \<Rightarrow> Inl e
              | Inr False \<Rightarrow> build_valid available failure valid
              | Inr True \<Rightarrow>
                  (case dict_set_true valid name of
                     Inl e \<Rightarrow> Inl e
                   | Inr valid' \<Rightarrow> build_valid available failure valid'))"

text \<open>
  \<^verbatim>\<open>choose_best_model\<close>, given what \<^verbatim>\<open>client.models.list()\<close> does. Only the call is
  inside the \<^verbatim>\<open>try\<close> (lines 31 to 35). The result is the value returned (\<open>Inr\<close>) or the
  exception that leaves the function (\<open>Inl\<close>).
\<close>

definition choose_best_model :: "listing \<Rightarrow> exn + pyval" where
  "choose_best_model listing =
     (case listing of
        ListRaises e \<Rightarrow> Inr (PStr ''models/gemini-2.5-pro'')
      | ListReturns available failure \<Rightarrow>
          (case build_valid available failure [] of
             Inl e \<Rightarrow> Inl e
           | Inr valid \<Rightarrow>
               (case find (\<lambda>pref. dict_contains valid (PStr pref)) PREFERRED_MODELS of
                  Some pref \<Rightarrow> Inr (PStr pref)
                | None \<Rightarrow>
                    (case valid of
                       k # ks \<Rightarrow> Inr k
                     | [] \<Rightarrow> Inr (PStr ''models/gemini-2.5-pro'')))))"

section \<open>Requesting a diagnosis\<close>

text \<open>
  The file defines \<^verbatim>\<open>get_diagnosis\<close> twice. The first definition (lines 61 to 91) is
  replaced by the second (lines 94 to 158) when the module is loaded, so the second is the
  one that the button calls. Their prompt templates, with the symptom text in the place of
  \<^verbatim>\<open>{symptoms}\<close>:
\<close>

definition prompt_first :: "string \<Rightarrow> string" where
  \<open>prompt_first symptoms =
     ''You are a medical assistant. A user reports the following symptoms: '' @
     symptoms @
     ''\<newline>'' @
     ''\<newline>'' @
     ''Provide:\<newline>'' @
     ''1. A likely diagnosis (mention uncertainty if not definitive).\<newline>'' @
     ''2. Suggested treatment (non-prescription/general advice; recommend seeing a doctor for serious concerns).\<newline>'' @
     ''3. Precautions to take.\<newline>'' @
     ''Format the answer with clear headings like:\<newline>'' @
     ''Diagnosis:\<newline>'' @
     ''Treatment:\<newline>'' @
     ''Precautions:\<newline>''\<close>
definition prompt_second :: "string \<Rightarrow> string" where
  \<open>prompt_second symptoms =
     ''\<newline>'' @
     ''You are a medical assistant. The user reports the following symptoms: '' @
     symptoms @
     ''\<newline>'' @
     ''\<newline>'' @
     ''Your response must follow this exact format and structure, with no markdown, no asterisks, and no bold text. Use only plain text labels. Do not add extra commentary before or after.\<newline>'' @
     ''\<newline>'' @
     ''Main Advice:\<newline>'' @
     ''<one short paragraph in plain English summarizing the advice>\<newline>'' @
     ''\<newline>'' @
     ''Priority Assessment:\<newline>'' @
     ''<Low / Medium / High Priority based on urgency>\<newline>'' @
     ''\<newline>'' @
     ''#checking/ testing the activity logs by commits.\<newline>'' @
     ''\<newline>'' @
     ''Medical Assessment:\<newline>'' @
     ''<likely diagnosis or suspected cause>\<newline>'' @
     ''\<newline>'' @
     ''Recommended Treatment:\<newline>'' @
     ''Oral Medication: <name or "Not recommended">\<newline>'' @
     ''  Dosage: <dosage or "-">\<newline>'' @
     ''  Frequency: <frequency or "-">\<newline>'' @
     ''  Duration: <duration or "-">\<newline>'' @
     ''\<newline>'' @
     ''Inhaler: <name or "Not recommended">\<newline>'' @
     ''  Dosage: <dosage or "-">\<newline>'' @
     ''  Frequency: <frequency or "-">\<newline>'' @
     ''  Duration: <duration or "-">\<newline>'' @
     ''\<newline>'' @
     ''Ointment: <name or "Not recommended">\<newline>'' @
     ''  Dosage: <dosage or "-">\<newline>'' @
     ''  Frequency: <frequency or "-">\<newline>'' @
     ''  Duration: <duration or "-">\<newline>'' @
     ''\<newline>'' @
     ''Important Precautions:\<newline>'' @
     ''- <precaution 1>\<newline>'' @
     ''- <precaution 2>\<newline>'' @
     ''- <precaution 3>\<newline>'' @
     ''(Include at least 3)\<newline>'' @
     ''\<newline>'' @
     ''Follow-up Care:\<newline>'' @
     ''- <follow-up step 1>\<newline>'' @
     ''- <follow-up step 2>\<newline>'' @
     ''- <follow-up step 3>\<newline>'' @
     ''(Include at least 3)\<newline>'' @
     ''\<newline>'' @
     ''Medical Disclaimer:\<newline>'' @
     ''This is not a substitute for professional medical advice.\<newline>'' @
     ''    ''\<close>

text \<open>
  \<^verbatim>\<open>client.models.generate_content(model=..., contents=...)\<close> is the outside world: a
  function from the model and the prompt to an exception raised (\<open>Inl\<close>) or a response
  object (\<open>Inr\<close>). The global \<^verbatim>\<open>CHOSEN_MODEL\<close> that the functions read is the argument
  \<open>chosen\<close>. The result is the value returned (\<open>Inr\<close>) or an exception that leaves the
  function (\<open>Inl\<close>). The body of the \<^verbatim>\<open>try\<close> is the inner \<open>case\<close>, the handler
  \<^verbatim>\<open>except Exception as e\<close> the outer one.
\<close>

definition get_diagnosis_first :: "(pyval \<Rightarrow> string \<Rightarrow> exn + pyval) \<Rightarrow> pyval \<Rightarrow> string \<Rightarrow> exn + pyval" where
  "get_diagnosis_first generate_content chosen symptoms =
     (let prompt = prompt_first symptoms in
      case
        (case generate_content chosen prompt of
           Inl e \<Rightarrow> Inl e
         | Inr response \<Rightarrow>
             (let text = getattr response ''text'' PNone in
              case text of
                PStr t \<Rightarrow> Inr (PStr (strip t))
              | _ \<Rightarrow>
                  (let candidates = getattr response ''candidates'' PNone in
                   case (if truthy candidates
                         then (case py_len candidates of Inl e \<Rightarrow> Inl e | Inr n \<Rightarrow> Inr (n > 0))
                         else Inr False) of
                     Inl e \<Rightarrow> Inl e
                   | Inr False \<Rightarrow> Inr (PStr ''Received unexpected response format from Gemini API.'')
                   | Inr True \<Rightarrow>
                       (case py_getitem0 candidates of
                          Inl e \<Rightarrow> Inl e
                        | Inr first \<Rightarrow>
                            (let content = py_or (getattr first ''content'' PNone)
                                                 (getattr first ''text'' PNone) in
                             case content of
                               PStr c \<Rightarrow> Inr (PStr (strip c))
                             | _ \<Rightarrow> Inr (PStr ''Received unexpected response format from Gemini API.''))))))
      of
        Inl e \<Rightarrow> Inr (PStr (''Error contacting Gemini API:\<newline>'' @ exn_str e))
      | Inr result \<Rightarrow> Inr result)"

definition get_diagnosis :: "(pyval \<Rightarrow> string \<Rightarrow> exn + pyval) \<Rightarrow> pyval \<Rightarrow> string \<Rightarrow> exn + pyval" where
  "get_diagnosis generate_content chosen symptoms =
     (let prompt = prompt_second symptoms in
      case
        (case generate_content chosen prompt of
           Inl e \<Rightarrow> Inl e
         | Inr response \<Rightarrow>
             (let text = getattr response ''text'' PNone in
              case text of
                PStr t \<Rightarrow> Inr (PStr (strip t))
              | _ \<Rightarrow>
                  (let candidates = getattr response ''candidates'' PNone in
                   case (if truthy candidates
                         then (case py_len candidates of Inl e \<Rightarrow> Inl e | Inr n \<Rightarrow> Inr (n > 0))
                         else Inr False) of
                     Inl e \<Rightarrow> Inl e
                   | Inr False \<Rightarrow> Inr (PStr ''Received unexpected response format from Gemini API.'')
                   | Inr True \<Rightarrow>
                       (case py_getitem0 candidates of
                          Inl e \<Rightarrow> Inl e
                        | Inr first \<Rightarrow>
                            (let content = py_or (getattr first ''content'' PNone)
                                                 (getattr first ''text'' PNone) in
                             case content of
                               PStr c \<Rightarrow> Inr (PStr (strip c))
                             | _ \<Rightarrow> Inr (PStr ''Received unexpected response format from Gemini API.''))))))
      of
        Inl e \<Rightarrow> Inr (PStr (''Error contacting Gemini API:\<newline>'' @ exn_str e))
      | Inr result \<Rightarrow> Inr result)"

section \<open>The process: start-up and the requests of a session\<close>

text \<open>
  The module state that the claims speak of: the global \<^verbatim>\<open>CHOSEN_MODEL\<close>, bound once
  by line 59 while the module loads, and the text shown in the output box.
\<close>

record app =
  CHOSEN_MODEL :: pyval
  output_box :: string

text \<open>
  Line 59: \<^verbatim>\<open>CHOSEN_MODEL = choose_best_model()\<close>. An exception here is not handled and
  ends the process before the window exists.
\<close>

definition startup :: "listing \<Rightarrow> exn + app" where
  "startup listing =
     (case choose_best_model listing of
        Inl e \<Rightarrow> Inl e
      | Inr m \<Rightarrow> Inr \<lparr>CHOSEN_MODEL = m, output_box = []\<rparr>)"

text \<open>
  The button handler \<^verbatim>\<open>diagnose\<close>: the typed text is stripped; when nothing is left a
  warning is shown and nothing else happens; otherwise the result of \<^verbatim>\<open>get_diagnosis\<close>
  replaces the content of the output box. The handler has no \<^verbatim>\<open>global\<close> statement
  and assigns no module variable. Were \<^verbatim>\<open>get_diagnosis\<close> to raise, the handler would
  end there with the box untouched.
\<close>

definition diagnose :: "(pyval \<Rightarrow> string \<Rightarrow> exn + pyval) \<Rightarrow> app \<Rightarrow> string \<Rightarrow> app" where
  "diagnose generate_content st typed =
     (let symptoms = strip typed in
      if symptoms = [] then st
      else case get_diagnosis generate_content (CHOSEN_MODEL st) symptoms of
             Inr (PStr result) \<Rightarrow> st\<lparr>output_box := result\<rparr>
           | _ \<Rightarrow> st)"

text \<open>
  A session is the sequence of button presses after start-up, each with the text typed at
  that moment and with what the generation endpoint does at that moment.
\<close>

fun run_session :: "app \<Rightarrow> ((pyval \<Rightarrow> string \<Rightarrow> exn + pyval) \<times> string) list \<Rightarrow> app" where
  "run_session st [] = st"
| "run_session st ((generate_content, typed) # presses) =
     run_session (diagnose generate_content st typed) presses"

section \<open>Auxiliary notions\<close>

text \<open>
  What one catalog entry does to the loop of \<^verbatim>\<open>choose_best_model\<close>, whatever the dict
  holds at that moment: it raises, it is skipped (\<open>None\<close>), or its name is stored.
\<close>

definition entry_key :: "pyval \<Rightarrow> exn + pyval option" where
  "entry_key m =
     (let methods = getattr m ''supported_generation_methods'' PNone;
          name = getattr m ''name'' PNone
      in if \<not> truthy name then Inr None
         else case (if truthy methods then py_contains ''generateContent'' methods else Inr False) of
                Inl e \<Rightarrow> Inl e
              | Inr False \<Rightarrow> Inr None
              | Inr True \<Rightarrow>
                  (case dict_set_true [] name of Inl e \<Rightarrow> Inl e | Inr d \<Rightarrow> Inr (Some name)))"

text \<open>
  The supported set in the words of the specification (section 4.1, step 2, and section 6),
  written without the loop of the program, to compare the program with: an entry is
  supported when its name is non-empty and its capability attribute is a collection of
  strings that holds \<^verbatim>\<open>"generateContent"\<close>; an absent capability attribute and one of any
  other shape count as unsupported. The supported set is the names of the supported
  entries, in catalog order.
\<close>

definition spec_supported :: "pyval \<Rightarrow> bool" where
  "spec_supported m =
     (truthy (getattr m ''name'' PNone) \<and>
      (case getattr m ''supported_generation_methods'' PNone of
         PList ops \<Rightarrow> PStr ''generateContent'' \<in> set ops
       | _ \<Rightarrow> False))"

definition spec_supported_set :: "pyval list \<Rightarrow> pyval list" where
  "spec_supported_set catalog = map (\<lambda>m. getattr m ''name'' PNone) (filter spec_supported catalog)"

text \<open>
  An entry as section 6 of the specification types it: the name, when present, is a string,
  and the capability attribute, when present, is a list.
\<close>

definition typed_entry :: "pyval \<Rightarrow> bool" where
  "typed_entry m =
     ((case getattr m ''name'' PNone of PNone \<Rightarrow> True | PStr s \<Rightarrow> True | _ \<Rightarrow> False) \<and>
      (case getattr m ''supported_generation_methods'' PNone of
         PNone \<Rightarrow> True | PList ops \<Rightarrow> True | _ \<Rightarrow> False))"

text \<open>An endpoint that does the same thing at every call.\<close>

definition const_endpoint :: "exn + pyval \<Rightarrow> pyval \<Rightarrow> string \<Rightarrow> exn + pyval" where
  "const_endpoint outcome model contents = outcome"

section \<open>Facts about the dict and the selection loop\<close>

lemma py_eq_PStr_left: "py_eq (PStr s) k = (k = PStr s)"
  by (cases k) auto

lemma py_eq_PStr_right: "py_eq k (PStr s) = (k = PStr s)"
  by (cases k) auto

lemma dict_contains_PStr: "dict_contains d (PStr s) = (PStr s \<in> set d)"
  by (auto simp: dict_contains_def list_ex_iff py_eq_PStr_left)

lemma dict_set_true_PStr:
  "dict_set_true d k = Inr d' \<Longrightarrow> (PStr s \<in> set d') = (PStr s \<in> set d \<or> k = PStr s)"
  by (cases k) (auto simp: dict_contains_def list_ex_iff py_eq_PStr_right py_eq_PStr_left split: if_splits)

lemma dict_set_true_prefix: "dict_set_true d k = Inr d' \<Longrightarrow> \<exists>rest. d' = d @ rest"
  by (cases k) (auto split: if_splits)

lemma dict_set_true_empty: "dict_set_true [] k = Inr d' \<Longrightarrow> d' = [k]"
  by (cases k) (auto simp: dict_contains_def)

lemma build_valid_Cons:
  "build_valid (m # ms) f v =
     (case entry_key m of
        Inl e \<Rightarrow> Inl e
      | Inr None \<Rightarrow> build_valid ms f v
      | Inr (Some k) \<Rightarrow> (case dict_set_true v k of Inl e \<Rightarrow> Inl e | Inr v' \<Rightarrow> build_valid ms f v'))"
  by (cases "getattr m ''name'' PNone")
     (auto simp: entry_key_def Let_def split: sum.splits bool.splits)

lemma entry_key_Some_set: "entry_key m = Inr (Some k) \<Longrightarrow> \<exists>v'. dict_set_true v k = Inr v'"
  by (cases k) (auto simp: entry_key_def Let_def split: sum.splits bool.splits if_splits)

lemma build_valid_returns_iff:
  "(\<exists>v'. build_valid ms f v = Inr v') \<longleftrightarrow> f = None \<and> (\<forall>m \<in> set ms. \<exists>k. entry_key m = Inr k)"
proof (induction ms arbitrary: v)
  case Nil
  show ?case by (cases f) simp_all
next
  case (Cons m ms)
  show ?case
  proof (cases "entry_key m")
    case (Inl e)
    then show ?thesis by (simp add: build_valid_Cons del: build_valid.simps)
  next
    case (Inr ok)
    show ?thesis
    proof (cases ok)
      case None
      with Inr Cons.IH [of v] show ?thesis by (simp add: build_valid_Cons del: build_valid.simps)
    next
      case (Some k)
      with Inr obtain v1 where v1: "dict_set_true v k = Inr v1"
        using entry_key_Some_set by blast
      with Inr Some Cons.IH [of v1] show ?thesis by (simp add: build_valid_Cons del: build_valid.simps)
    qed
  qed
qed

lemma build_valid_names:
  "build_valid ms f v = Inr v' \<Longrightarrow>
     (PStr s \<in> set v') = (PStr s \<in> set v \<or> (\<exists>m \<in> set ms. entry_key m = Inr (Some (PStr s))))"
proof (induction ms arbitrary: v)
  case Nil
  then show ?case by (cases f) simp_all
next
  case (Cons m ms)
  show ?case
  proof (cases "entry_key m")
    case (Inl e)
    with Cons.prems show ?thesis by (simp add: build_valid_Cons del: build_valid.simps)
  next
    case (Inr ok)
    show ?thesis
    proof (cases ok)
      case None
      with Inr Cons.prems Cons.IH [of v] show ?thesis by (simp add: build_valid_Cons del: build_valid.simps)
    next
      case (Some k)
      with Inr obtain v1 where v1: "dict_set_true v k = Inr v1"
        using entry_key_Some_set by blast
      with Inr Some Cons.prems have "build_valid ms f v1 = Inr v'"
        by (simp add: build_valid_Cons del: build_valid.simps)
      from Cons.IH [OF this] dict_set_true_PStr [OF v1, of s] Inr Some
      show ?thesis by auto
    qed
  qed
qed

lemma build_valid_prefix: "build_valid ms f v = Inr v' \<Longrightarrow> \<exists>rest. v' = v @ rest"
proof (induction ms arbitrary: v)
  case Nil
  then show ?case by (cases f) simp_all
next
  case (Cons m ms)
  show ?case
  proof (cases "entry_key m")
    case (Inl e)
    with Cons.prems show ?thesis by (simp add: build_valid_Cons del: build_valid.simps)
  next
    case (Inr ok)
    show ?thesis
    proof (cases ok)
      case None
      with Inr Cons.prems Cons.IH [of v] show ?thesis by (simp add: build_valid_Cons del: build_valid.simps)
    next
      case (Some k)
      with Inr obtain v1 where v1: "dict_set_true v k = Inr v1"
        using entry_key_Some_set by blast
      with Inr Some Cons.prems have "build_valid ms f v1 = Inr v'"
        by (simp add: build_valid_Cons del: build_valid.simps)
      from Cons.IH [OF this] dict_set_true_prefix [OF v1] show ?thesis by auto
    qed
  qed
qed

lemma find_absent: "find (\<lambda>x. False) xs = None"
  by (induction xs) simp_all

lemma is_prefix_append: "is_prefix sub (sub @ rest)"
  by (induction sub) simp_all

lemma str_contains_append: "str_contains sub (before @ sub @ rest)"
proof (induction before)
  case Nil
  show ?case by (cases "sub @ rest") (use is_prefix_append [of sub rest] in auto)
next
  case (Cons c before)
  then show ?case by simp
qed

section \<open>Model selection on catalogs typed as the specification types them\<close>

text \<open>
  On an entry typed as in section 6 the loop stores the name exactly when the entry is
  supported in the words of the specification, and it never raises.
\<close>

lemma entry_key_typed:
  "typed_entry m \<Longrightarrow>
     entry_key m = Inr (if spec_supported m then Some (getattr m ''name'' PNone) else None)"
  by (cases "getattr m ''name'' PNone"; cases "getattr m ''supported_generation_methods'' PNone")
     (auto simp: typed_entry_def spec_supported_def entry_key_def Let_def)

lemma build_valid_typed_names:
  assumes "list_all typed_entry ms" and "build_valid ms f [] = Inr v"
  shows "(PStr s \<in> set v) = (PStr s \<in> set (spec_supported_set ms))"
proof -
  have "entry_key m = Inr (Some (PStr s)) \<longleftrightarrow> spec_supported m \<and> getattr m ''name'' PNone = PStr s"
    if "m \<in> set ms" for m
    using assms(1) that by (auto simp: list_all_iff entry_key_typed)
  then have "(\<exists>m \<in> set ms. entry_key m = Inr (Some (PStr s))) = (PStr s \<in> set (spec_supported_set ms))"
    by (force simp: spec_supported_set_def image_iff)
  with build_valid_names [OF assms(2), of s] show ?thesis by simp
qed

lemma build_valid_typed_first:
  "list_all typed_entry ms \<Longrightarrow> build_valid ms f [] = Inr v \<Longrightarrow>
     (case spec_supported_set ms of [] \<Rightarrow> v = [] | k # ks \<Rightarrow> (\<exists>rest. v = k # rest))"
proof (induction ms)
  case Nil
  then show ?case by (cases f) (simp_all add: spec_supported_set_def)
next
  case (Cons m ms)
  from Cons.prems(1) have tm: "typed_entry m" and tms: "list_all typed_entry ms"
    by simp_all
  show ?case
  proof (cases "spec_supported m")
    case False
    with tm Cons.prems(2) have "build_valid ms f [] = Inr v"
      by (simp add: build_valid_Cons entry_key_typed del: build_valid.simps)
    from Cons.IH [OF tms this] False show ?thesis
      by (simp add: spec_supported_set_def)
  next
    case True
    let ?k = "getattr m ''name'' PNone"
    from tm True have key: "entry_key m = Inr (Some ?k)"
      by (simp add: entry_key_typed)
    then obtain v1 where v1: "dict_set_true [] ?k = Inr v1"
      using entry_key_Some_set by blast
    then have "v1 = [?k]" by (rule dict_set_true_empty)
    with key v1 Cons.prems(2) have "build_valid ms f [?k] = Inr v"
      by (simp add: build_valid_Cons del: build_valid.simps)
    then obtain rest where "v = [?k] @ rest"
      using build_valid_prefix by blast
    with True show ?thesis
      by (simp add: spec_supported_set_def)
  qed
qed

text \<open>
  The whole selection on a typed catalog that is iterated to its end: the preferred
  identifier of the highest priority in the supported set, else the first name of the
  supported set, else the default.
\<close>

lemma choose_best_model_typed:
  assumes "list_all typed_entry available"
  shows "choose_best_model (ListReturns available None) =
           Inr (case find (\<lambda>pref. PStr pref \<in> set (spec_supported_set available)) PREFERRED_MODELS of
                  Some pref \<Rightarrow> PStr pref
                | None \<Rightarrow>
                    (case spec_supported_set available of
                       [] \<Rightarrow> PStr ''models/gemini-2.5-pro''
                     | k # ks \<Rightarrow> k))"
proof -
  have "\<forall>m \<in> set available. \<exists>k. entry_key m = Inr k"
    using assms by (auto simp: list_all_iff entry_key_typed)
  then obtain valid where v: "build_valid available None [] = Inr valid"
    using build_valid_returns_iff [of available None "[]"] by auto
  have names: "dict_contains valid (PStr pref) = (PStr pref \<in> set (spec_supported_set available))" for pref
    using build_valid_typed_names [OF assms v] by (simp add: dict_contains_PStr)
  from build_valid_typed_first [OF assms v]
  have first: "(case valid of [] \<Rightarrow> d | k # ks \<Rightarrow> g k) =
               (case spec_supported_set available of [] \<Rightarrow> d | k # ks \<Rightarrow> g k)" for d :: "exn + pyval" and g
    by (cases "spec_supported_set available") auto
  show ?thesis
    unfolding choose_best_model_def
    by (simp add: v names first split: option.splits list.splits)
qed

lemma choose_best_model_typed_reordered:
  assumes "list_all typed_entry available" and "mset reordered = mset available"
    and "find (\<lambda>pref. PStr pref \<in> set (spec_supported_set available)) PREFERRED_MODELS = Some pref"
  shows "choose_best_model (ListReturns reordered None) = Inr (PStr pref)"
proof -
  have s: "set reordered = set available"
    using assms(2) by (rule mset_eq_setD)
  then have t: "list_all typed_entry reordered"
    using assms(1) by (simp add: list_all_iff)
  have "set (spec_supported_set reordered) = set (spec_supported_set available)"
    using s by (simp add: spec_supported_set_def)
  with assms(3) choose_best_model_typed [OF t] show ?thesis by simp
qed

lemma choose_best_model_list_raises:
  "choose_best_model (ListRaises e) = Inr (PStr ''models/gemini-2.5-pro'')"
  by (simp add: choose_best_model_def)

section \<open>Model selection: the claims\<close>

text \<open>
  Claim C2. The claim is that for every catalog whose supported set holds one of the five
  preferred identifiers \<^verbatim>\<open>choose_best_model\<close> returns the one of the highest priority.
  The catalog below has the supported set \<^verbatim>\<open>{"models/gemini-2.5-pro"}\<close>, and on that
  entry alone the function returns \<^verbatim>\<open>"models/gemini-2.5-pro"\<close>. Its second entry has the
  capability attribute 5, which is unsupported in the words of the specification; there
  \<^verbatim>\<open>"generateContent" in methods\<close> raises \<^verbatim>\<open>TypeError\<close> and the function returns nothing.
  An entry that lists other operations only is passed over as the claim says: with
  \<^verbatim>\<open>"models/gemini-2.5-pro"\<close> offering \<^verbatim>\<open>embedContent\<close> alone, the function returns
  \<^verbatim>\<open>"models/gemini-2.5-flash"\<close>.
\<close>

theorem choose_best_model_preferred_lost:
  "spec_supported_set
     [PObj 1 ''Model'' [(''name'', PStr ''models/gemini-2.5-pro''), (''supported_generation_methods'', PList [PStr ''generateContent''])],
      PObj 2 ''Model'' [(''name'', PStr ''models/x''), (''supported_generation_methods'', PInt 5)]]
     = [PStr ''models/gemini-2.5-pro''] \<and>
   choose_best_model (ListReturns
     [PObj 1 ''Model'' [(''name'', PStr ''models/gemini-2.5-pro''), (''supported_generation_methods'', PList [PStr ''generateContent''])]] None)
     = Inr (PStr ''models/gemini-2.5-pro'') \<and>
   choose_best_model (ListReturns
     [PObj 1 ''Model'' [(''name'', PStr ''models/gemini-2.5-pro''), (''supported_generation_methods'', PList [PStr ''generateContent''])],
      PObj 2 ''Model'' [(''name'', PStr ''models/x''), (''supported_generation_methods'', PInt 5)]] None)
     = Inl (Raise ''TypeError'' ''argument of type 'int' is not iterable'') \<and>
   choose_best_model (ListReturns
     [PObj 1 ''Model'' [(''name'', PStr ''models/gemini-2.5-pro''), (''supported_generation_methods'', PList [PStr ''embedContent''])],
      PObj 2 ''Model'' [(''name'', PStr ''models/gemini-2.5-flash''), (''supported_generation_methods'', PList [PStr ''generateContent''])]] None)
     = Inr (PStr ''models/gemini-2.5-flash'')"
  by (simp add: spec_supported_set_def spec_supported_def choose_best_model_def dict_contains_def
        PREFERRED_MODELS_def)

text \<open>
  Claim C3. The claim is that \<^verbatim>\<open>choose_best_model\<close> returns exactly
  \<^verbatim>\<open>"models/gemini-2.5-pro"\<close> whenever the catalog fetch fails and whenever the supported
  set is empty. The catalog of one entry with the capability attribute 5 has the empty
  supported set, and the function raises \<^verbatim>\<open>TypeError\<close> on it. A fetch that fails while the
  returned iterable is iterated (here before the first entry) raises in the loop, after
  the \<^verbatim>\<open>try\<close>, and the exception leaves the function too. The default does come back
  when the call itself raises and when a catalog whose only entry offers
  \<^verbatim>\<open>embedContent\<close> alone is iterated to its end.
\<close>

theorem choose_best_model_default_lost:
  "spec_supported_set
     [PObj 1 ''Model'' [(''name'', PStr ''models/x''), (''supported_generation_methods'', PInt 5)]] = [] \<and>
   choose_best_model (ListReturns
     [PObj 1 ''Model'' [(''name'', PStr ''models/x''), (''supported_generation_methods'', PInt 5)]] None)
     = Inl (Raise ''TypeError'' ''argument of type 'int' is not iterable'') \<and>
   choose_best_model (ListReturns [] (Some (Raise ''ConnectionError'' ''connection lost'')))
     = Inl (Raise ''ConnectionError'' ''connection lost'') \<and>
   choose_best_model (ListRaises (Raise ''ConnectionError'' ''connection lost''))
     = Inr (PStr ''models/gemini-2.5-pro'') \<and>
   choose_best_model (ListReturns
     [PObj 1 ''Model'' [(''name'', PStr ''models/embedding-001''), (''supported_generation_methods'', PList [PStr ''embedContent''])]] None)
     = Inr (PStr ''models/gemini-2.5-pro'')"
  by (simp add: spec_supported_set_def spec_supported_def choose_best_model_def dict_contains_def
        PREFERRED_MODELS_def)

text \<open>
  Claim C4. The claim is that for every catalog whose supported set is not empty and holds
  no preferred identifier \<^verbatim>\<open>choose_best_model\<close> returns a member of that set. The
  catalog below has the supported set \<^verbatim>\<open>{"models/other"}\<close>, and on that entry alone the
  function returns \<^verbatim>\<open>"models/other"\<close>. Its second entry has the capability attribute 5;
  there the function raises \<^verbatim>\<open>TypeError\<close> and returns nothing. An entry that lists
  other operations only is passed over as the claim says: after
  \<^verbatim>\<open>"models/embedding-001"\<close> offering \<^verbatim>\<open>embedContent\<close> alone, the function returns
  \<^verbatim>\<open>"models/other"\<close>.
\<close>

theorem choose_best_model_fallback_lost:
  "spec_supported_set
     [PObj 1 ''Model'' [(''name'', PStr ''models/other''), (''supported_generation_methods'', PList [PStr ''generateContent''])],
      PObj 2 ''Model'' [(''name'', PStr ''models/x''), (''supported_generation_methods'', PInt 5)]]
     = [PStr ''models/other''] \<and>
   choose_best_model (ListReturns
     [PObj 1 ''Model'' [(''name'', PStr ''models/other''), (''supported_generation_methods'', PList [PStr ''generateContent''])]] None)
     = Inr (PStr ''models/other'') \<and>
   choose_best_model (ListReturns
     [PObj 1 ''Model'' [(''name'', PStr ''models/other''), (''supported_generation_methods'', PList [PStr ''generateContent''])],
      PObj 2 ''Model'' [(''name'', PStr ''models/x''), (''supported_generation_methods'', PInt 5)]] None)
     = Inl (Raise ''TypeError'' ''argument of type 'int' is not iterable'') \<and>
   choose_best_model (ListReturns
     [PObj 1 ''Model'' [(''name'', PStr ''models/embedding-001''), (''supported_generation_methods'', PList [PStr ''embedContent''])],
      PObj 2 ''Model'' [(''name'', PStr ''models/other''), (''supported_generation_methods'', PList [PStr ''generateContent''])]] None)
     = Inr (PStr ''models/other'')"
  by (simp add: spec_supported_set_def spec_supported_def choose_best_model_def dict_contains_def
        PREFERRED_MODELS_def)

text \<open>
  Claim C5. The claim is that no catalog content makes \<^verbatim>\<open>choose_best_model\<close> raise, a
  capability attribute of the wrong shape counting as unsupported. At an entry whose
  \<^verbatim>\<open>supported_generation_methods\<close> is the integer 5 the test
  \<^verbatim>\<open>"generateContent" in methods\<close> raises \<^verbatim>\<open>TypeError\<close>, outside every \<^verbatim>\<open>try\<close>,
  and the exception leaves the function.
\<close>

theorem choose_best_model_raises_on_int_methods:
  "choose_best_model (ListReturns [PObj 1 ''Model'' [(''name'', PStr ''models/x''), (''supported_generation_methods'', PInt 5)]] None)
     = Inl (Raise ''TypeError'' ''argument of type 'int' is not iterable'')"
  by (simp add: choose_best_model_def)

section \<open>Facts about \<^verbatim>\<open>strip\<close> and about case distinctions on values\<close>

lemma strip_decomposes:
  "\<exists>l r. t = l @ strip t @ r \<and> list_all py_isspace l \<and> list_all py_isspace r"
proof -
  define u where "u = dropWhile py_isspace t"
  define w where "w = dropWhile py_isspace (rev u)"
  have s: "strip t = rev w"
    by (simp add: strip_def u_def w_def)
  have t: "t = takeWhile py_isspace t @ u"
    by (simp add: u_def)
  have "rev u = takeWhile py_isspace (rev u) @ w"
    by (simp add: w_def)
  then have "rev (rev u) = rev (takeWhile py_isspace (rev u) @ w)"
    by simp
  then have u: "u = strip t @ rev (takeWhile py_isspace (rev u))"
    by (simp add: s)
  have l: "list_all py_isspace (takeWhile py_isspace t)"
    by (auto simp: list_all_iff dest: set_takeWhileD)
  have r: "list_all py_isspace (rev (takeWhile py_isspace (rev u)))"
    by (auto simp: list_all_iff dest: set_takeWhileD)
  from t u have "t = takeWhile py_isspace t @ strip t @ rev (takeWhile py_isspace (rev u))"
    by simp
  with l r show ?thesis by blast
qed

lemma strip_ends:
  assumes "strip t \<noteq> []"
  shows "\<not> py_isspace (hd (strip t)) \<and> \<not> py_isspace (last (strip t))"
proof -
  define u where "u = dropWhile py_isspace t"
  define w where "w = dropWhile py_isspace (rev u)"
  have s: "strip t = rev w"
    by (simp add: strip_def u_def w_def)
  with assms have w: "w \<noteq> []" by simp
  then have "\<not> py_isspace (hd w)"
    unfolding w_def by (rule hd_dropWhile)
  then have last: "\<not> py_isspace (last (strip t))"
    using s w by (simp add: last_rev)
  have "rev u = takeWhile py_isspace (rev u) @ w"
    by (simp add: w_def)
  then have "rev (rev u) = rev (takeWhile py_isspace (rev u) @ w)"
    by simp
  then have u: "u = strip t @ rev (takeWhile py_isspace (rev u))"
    by (simp add: s)
  with assms have "u \<noteq> []" and "hd u = hd (strip t)"
    by (metis append_is_Nil_conv, metis hd_append2)
  moreover have "u \<noteq> [] \<Longrightarrow> \<not> py_isspace (hd u)"
    unfolding u_def by (rule hd_dropWhile)
  ultimately show ?thesis using last by simp
qed

lemma case_not_PStr:
  "(\<nexists>t. v = PStr t) \<Longrightarrow>
     (case v of PNone \<Rightarrow> b | PBool x \<Rightarrow> b | PInt i \<Rightarrow> b | PStr t \<Rightarrow> a t | PList xs \<Rightarrow> b | PObj ident cls attrs \<Rightarrow> b) = b"
  by (cases v) auto

section \<open>Requesting a diagnosis: the claims\<close>

text \<open>
  Claim C1. Whatever the generation call does (it returns a response of any shape or it
  raises any exception) and whatever the symptom text is, \<^verbatim>\<open>get_diagnosis\<close> returns a
  string and no exception leaves it. When the call raises \<open>e\<close> the string is
  \<^verbatim>\<open>"Error contacting Gemini API:\n"\<close> followed by \<^verbatim>\<open>str(e)\<close>, which contains both
  \<^verbatim>\<open>"Error contacting"\<close> and the message of \<open>e\<close>, \<^verbatim>\<open>"timeout"\<close> for instance.
\<close>

theorem get_diagnosis_always_returns_string:
  "(\<exists>r. get_diagnosis generate_content chosen symptoms = Inr (PStr r)) \<and>
   (generate_content chosen (prompt_second symptoms) = Inl e \<longrightarrow>
      get_diagnosis generate_content chosen symptoms
        = Inr (PStr (''Error contacting Gemini API:\<newline>'' @ exn_str e)) \<and>
      str_contains ''Error contacting'' (''Error contacting Gemini API:\<newline>'' @ exn_str e) \<and>
      str_contains (exn_str e) (''Error contacting Gemini API:\<newline>'' @ exn_str e))"
proof -
  have "\<exists>r. get_diagnosis generate_content chosen symptoms = Inr (PStr r)"
    by (auto simp: get_diagnosis_def Let_def split: sum.splits pyval.splits bool.splits)
  moreover have "str_contains ''Error contacting'' (''Error contacting Gemini API:\<newline>'' @ exn_str e)"
    using str_contains_append [of "''Error contacting''" "[]" "'' Gemini API:\<newline>'' @ exn_str e"] by simp
  moreover have "str_contains (exn_str e) (''Error contacting Gemini API:\<newline>'' @ exn_str e)"
    using str_contains_append [of "exn_str e" "''Error contacting Gemini API:\<newline>''" "[]"] by simp
  ultimately show ?thesis
    by (simp add: get_diagnosis_def)
qed

theorem get_diagnosis_always_returns_string_witness:
  "const_endpoint (Inl (Raise ''TimeoutError'' ''timeout'')) (PStr ''models/gemini-2.5-pro'') (prompt_second ''fever'')
     = Inl (Raise ''TimeoutError'' ''timeout'') \<and>
   get_diagnosis (const_endpoint (Inl (Raise ''TimeoutError'' ''timeout''))) (PStr ''models/gemini-2.5-pro'') ''fever''
     = Inr (PStr ''Error contacting Gemini API:\<newline>timeout'') \<and>
   str_contains ''Error contacting'' ''Error contacting Gemini API:\<newline>timeout'' \<and>
   str_contains ''timeout'' ''Error contacting Gemini API:\<newline>timeout''"
  using get_diagnosis_always_returns_string [of "const_endpoint (Inl (Raise ''TimeoutError'' ''timeout''))" "PStr ''models/gemini-2.5-pro''" "''fever''"
               "Raise ''TimeoutError'' ''timeout''"]
  by (simp add: const_endpoint_def)

text \<open>
  Claim C6. When the response has a \<^verbatim>\<open>text\<close> attribute that is a string \<open>t\<close>,
  \<^verbatim>\<open>get_diagnosis\<close> returns \<open>t\<close> stripped: \<open>t\<close> is the result between two runs of
  whitespace, and the result neither starts nor ends with whitespace. A response with only
  \<^verbatim>\<open>text = "Diagnosis: flu"\<close> gives exactly \<^verbatim>\<open>"Diagnosis: flu"\<close>.
\<close>

theorem get_diagnosis_direct_text:
  assumes "generate_content chosen (prompt_second symptoms) = Inr response"
    and "getattr response ''text'' PNone = PStr t"
  shows "get_diagnosis generate_content chosen symptoms = Inr (PStr (strip t)) \<and>
         (\<exists>l r. t = l @ strip t @ r \<and> list_all py_isspace l \<and> list_all py_isspace r) \<and>
         (strip t = [] \<or> \<not> py_isspace (hd (strip t)) \<and> \<not> py_isspace (last (strip t)))"
proof -
  have "get_diagnosis generate_content chosen symptoms = Inr (PStr (strip t))"
    using assms by (simp add: get_diagnosis_def)
  then show ?thesis
    using strip_decomposes [of t] strip_ends [of t] by blast
qed

theorem get_diagnosis_direct_text_witness:
  "const_endpoint (Inr (PObj 1 ''Response'' [(''text'', PStr ''Diagnosis: flu'')])) (PStr ''models/gemini-2.5-pro'') (prompt_second ''fever'')
     = Inr (PObj 1 ''Response'' [(''text'', PStr ''Diagnosis: flu'')]) \<and>
   getattr (PObj 1 ''Response'' [(''text'', PStr ''Diagnosis: flu'')]) ''text'' PNone = PStr ''Diagnosis: flu'' \<and>
   get_diagnosis (const_endpoint (Inr (PObj 1 ''Response'' [(''text'', PStr ''Diagnosis: flu'')]))) (PStr ''models/gemini-2.5-pro'') ''fever''
     = Inr (PStr ''Diagnosis: flu'')"
proof -
  let ?r = "PObj 1 ''Response'' [(''text'', PStr ''Diagnosis: flu'')]"
  have a: "const_endpoint (Inr ?r) (PStr ''models/gemini-2.5-pro'') (prompt_second ''fever'') = Inr ?r"
    by (simp add: const_endpoint_def)
  have b: "getattr ?r ''text'' PNone = PStr ''Diagnosis: flu''"
    by simp
  have s: "strip ''Diagnosis: flu'' = ''Diagnosis: flu''"
    by (simp add: strip_def py_isspace_def)
  from get_diagnosis_direct_text [of "const_endpoint (Inr ?r)" "PStr ''models/gemini-2.5-pro''" "''fever''" ?r "''Diagnosis: flu''", OF a b] a b s
  show ?thesis by simp
qed

text \<open>
  Claim C7, as amended. For a response with no string \<^verbatim>\<open>text\<close> attribute whose
  \<^verbatim>\<open>candidates\<close> is a non-empty list: when the \<^verbatim>\<open>content\<close> attribute of the first
  candidate is a non-empty string, \<^verbatim>\<open>get_diagnosis\<close> returns it stripped; when that
  \<^verbatim>\<open>content\<close> is absent or falsy and the \<^verbatim>\<open>text\<close> attribute of the first candidate
  is a string, \<^verbatim>\<open>get_diagnosis\<close> returns that one stripped. A first candidate with
  \<^verbatim>\<open>content = "see a doctor"\<close> gives \<^verbatim>\<open>"see a doctor"\<close>.
\<close>

theorem get_diagnosis_first_candidate:
  assumes "generate_content chosen (prompt_second symptoms) = Inr response"
    and "\<nexists>t. getattr response ''text'' PNone = PStr t"
    and "getattr response ''candidates'' PNone = PList (first # rest)"
  shows "(getattr first ''content'' PNone = PStr c \<and> c \<noteq> [] \<longrightarrow>
            get_diagnosis generate_content chosen symptoms = Inr (PStr (strip c))) \<and>
         (\<not> truthy (getattr first ''content'' PNone) \<and> getattr first ''text'' PNone = PStr c \<longrightarrow>
            get_diagnosis generate_content chosen symptoms = Inr (PStr (strip c)))"
  using assms
  by (cases "getattr response ''text'' PNone")
     (auto simp: get_diagnosis_def py_or_def)

theorem get_diagnosis_first_candidate_witness:
  "const_endpoint (Inr (PObj 1 ''Response'' [(''candidates'', PList [PObj 2 ''Candidate'' [(''content'', PStr ''see a doctor'')]])]))
      (PStr ''models/gemini-2.5-pro'') (prompt_second ''cough'')
     = Inr (PObj 1 ''Response'' [(''candidates'', PList [PObj 2 ''Candidate'' [(''content'', PStr ''see a doctor'')]])]) \<and>
   (\<nexists>t. getattr (PObj 1 ''Response'' [(''candidates'', PList [PObj 2 ''Candidate'' [(''content'', PStr ''see a doctor'')]])]) ''text'' PNone = PStr t) \<and>
   getattr (PObj 1 ''Response'' [(''candidates'', PList [PObj 2 ''Candidate'' [(''content'', PStr ''see a doctor'')]])]) ''candidates'' PNone
     = PList [PObj 2 ''Candidate'' [(''content'', PStr ''see a doctor'')]] \<and>
   getattr (PObj 2 ''Candidate'' [(''content'', PStr ''see a doctor'')]) ''content'' PNone = PStr ''see a doctor'' \<and>
   get_diagnosis
     (const_endpoint (Inr (PObj 1 ''Response'' [(''candidates'', PList [PObj 2 ''Candidate'' [(''content'', PStr ''see a doctor'')]])])))
     (PStr ''models/gemini-2.5-pro'') ''cough''
     = Inr (PStr ''see a doctor'')"
proof -
  let ?first = "PObj 2 ''Candidate'' [(''content'', PStr ''see a doctor'')]"
  let ?r = "PObj 1 ''Response'' [(''candidates'', PList [?first])]"
  have a: "const_endpoint (Inr ?r) (PStr ''models/gemini-2.5-pro'') (prompt_second ''cough'') = Inr ?r"
    by (simp add: const_endpoint_def)
  have b: "\<nexists>t. getattr ?r ''text'' PNone = PStr t"
    by simp
  have c: "getattr ?r ''candidates'' PNone = PList (?first # [])"
    by simp
  have d: "getattr ?first ''content'' PNone = PStr ''see a doctor''"
    by simp
  have s: "strip ''see a doctor'' = ''see a doctor''"
    by (simp add: strip_def py_isspace_def)
  from get_diagnosis_first_candidate [of "const_endpoint (Inr ?r)" "PStr ''models/gemini-2.5-pro''" "''cough''" ?r ?first "[]" "''see a doctor''", OF a b c]
    a b c d s
  show ?thesis by simp
qed

text \<open>
  The claim as first stated also promises the \<^verbatim>\<open>text\<close> string of a first candidate
  whose \<^verbatim>\<open>content\<close> is a truthy value that is no string. There
  \<^verbatim>\<open>content or text\<close> is the \<^verbatim>\<open>content\<close> object, the \<^verbatim>\<open>text\<close> string is never
  looked at, and the fixed message for an unexpected format comes back.
\<close>

theorem get_diagnosis_candidate_text_ignored:
  "getattr (PObj 1 ''Response'' [(''candidates'', PList [PObj 2 ''Candidate'' [(''content'', PObj 3 ''Content'' []), (''text'', PStr ''see a doctor'')]])]) ''text'' PNone = PNone \<and>
   getattr (PObj 2 ''Candidate'' [(''content'', PObj 3 ''Content'' []), (''text'', PStr ''see a doctor'')]) ''text'' PNone = PStr ''see a doctor'' \<and>
   get_diagnosis
     (const_endpoint (Inr (PObj 1 ''Response'' [(''candidates'', PList [PObj 2 ''Candidate'' [(''content'', PObj 3 ''Content'' []), (''text'', PStr ''see a doctor'')]])])))
     (PStr ''models/gemini-2.5-pro'') ''cough''
     = Inr (PStr ''Received unexpected response format from Gemini API.'') \<and>
   get_diagnosis
     (const_endpoint (Inr (PObj 1 ''Response'' [(''candidates'', PList [PObj 2 ''Candidate'' [(''content'', PObj 3 ''Content'' []), (''text'', PStr ''see a doctor'')]])])))
     (PStr ''models/gemini-2.5-pro'') ''cough''
     \<noteq> Inr (PStr ''see a doctor'')"
  by (simp add: get_diagnosis_def const_endpoint_def py_or_def)

text \<open>
  Claim C8, as amended. For a response with no string \<^verbatim>\<open>text\<close> attribute whose
  \<^verbatim>\<open>candidates\<close> attribute is absent or falsy, or has a first item (it is a non-empty
  list or string) from which \<^verbatim>\<open>content or text\<close> is no string, \<^verbatim>\<open>get_diagnosis\<close>
  returns \<^verbatim>\<open>"Received unexpected response format from Gemini API."\<close>.
\<close>

theorem get_diagnosis_sentinel:
  assumes "generate_content chosen (prompt_second symptoms) = Inr response"
    and "\<nexists>t. getattr response ''text'' PNone = PStr t"
    and "\<not> truthy (getattr response ''candidates'' PNone) \<or>
         (\<exists>first. py_getitem0 (getattr response ''candidates'' PNone) = Inr first \<and>
            (\<nexists>c. py_or (getattr first ''content'' PNone) (getattr first ''text'' PNone) = PStr c))"
  shows "get_diagnosis generate_content chosen symptoms
           = Inr (PStr ''Received unexpected response format from Gemini API.'')"
proof -
  let ?cands = "getattr response ''candidates'' PNone"
  note no_text = case_not_PStr [OF assms(2)]
  show ?thesis
  proof (cases "truthy ?cands")
    case False
    then show ?thesis
      using assms(1) by (simp add: get_diagnosis_def no_text)
  next
    case True
    with assms(3) obtain first where f: "py_getitem0 ?cands = Inr first"
      and n: "\<nexists>c. py_or (getattr first ''content'' PNone) (getattr first ''text'' PNone) = PStr c"
      by blast
    from f True have len: "\<exists>n. py_len ?cands = Inr n \<and> n > 0"
      by (cases ?cands rule: py_getitem0.cases) auto
    note no_content = case_not_PStr [OF n]
    from len obtain n where "py_len ?cands = Inr n" "n > 0" by blast
    then show ?thesis
      using assms(1) True f by (simp add: get_diagnosis_def no_text no_content)
  qed
qed

theorem get_diagnosis_sentinel_witness:
  "const_endpoint (Inr (PObj 1 ''Response'' [(''candidates'', PList [])])) (PStr ''models/gemini-2.5-pro'') (prompt_second ''cough'')
     = Inr (PObj 1 ''Response'' [(''candidates'', PList [])]) \<and>
   (\<nexists>t. getattr (PObj 1 ''Response'' [(''candidates'', PList [])]) ''text'' PNone = PStr t) \<and>
   \<not> truthy (getattr (PObj 1 ''Response'' [(''candidates'', PList [])]) ''candidates'' PNone) \<and>
   get_diagnosis (const_endpoint (Inr (PObj 1 ''Response'' [(''candidates'', PList [])]))) (PStr ''models/gemini-2.5-pro'') ''cough''
     = Inr (PStr ''Received unexpected response format from Gemini API.'')"
proof -
  let ?r = "PObj 1 ''Response'' [(''candidates'', PList [])]"
  have a: "const_endpoint (Inr ?r) (PStr ''models/gemini-2.5-pro'') (prompt_second ''cough'') = Inr ?r"
    by (simp add: const_endpoint_def)
  have b: "\<nexists>t. getattr ?r ''text'' PNone = PStr t"
    by simp
  have c: "\<not> truthy (getattr ?r ''candidates'' PNone)"
    by simp
  from get_diagnosis_sentinel [of "const_endpoint (Inr ?r)" "PStr ''models/gemini-2.5-pro''" "''cough''" ?r, OF a b disjI1 [OF c]] a b c
  show ?thesis by simp
qed

text \<open>
  The claim as first stated covers every response that matches neither shape. With
  \<^verbatim>\<open>candidates = 5\<close> the call \<^verbatim>\<open>len(candidates)\<close> raises \<^verbatim>\<open>TypeError\<close> inside the
  \<^verbatim>\<open>try\<close>, and the handler returns the error string instead of the fixed message.
\<close>

theorem get_diagnosis_unsized_candidates:
  "getattr (PObj 1 ''Response'' [(''candidates'', PInt 5)]) ''text'' PNone = PNone \<and>
   getattr (PObj 1 ''Response'' [(''candidates'', PInt 5)]) ''candidates'' PNone = PInt 5 \<and>
   get_diagnosis (const_endpoint (Inr (PObj 1 ''Response'' [(''candidates'', PInt 5)])))
     (PStr ''models/gemini-2.5-pro'') ''cough''
     = Inr (PStr ''Error contacting Gemini API:\<newline>object of type 'int' has no len()'') \<and>
   get_diagnosis (const_endpoint (Inr (PObj 1 ''Response'' [(''candidates'', PInt 5)])))
     (PStr ''models/gemini-2.5-pro'') ''cough''
     \<noteq> Inr (PStr ''Received unexpected response format from Gemini API.'')"
  by (simp add: get_diagnosis_def const_endpoint_def)

text \<open>
  Claim C10. The two definitions of \<^verbatim>\<open>get_diagnosis\<close> differ in the prompt only: when
  the generation call does the same thing on the prompt of the first as on the prompt of
  the second, both return the same value (the same stripped text, the same fixed message,
  the same error string), while the two prompts are different for every symptom text.
\<close>

theorem get_diagnosis_definitions_agree:
  assumes "generate_content chosen (prompt_first symptoms) = generate_content' chosen' (prompt_second symptoms)"
  shows "get_diagnosis_first generate_content chosen symptoms = get_diagnosis generate_content' chosen' symptoms \<and>
         prompt_first symptoms \<noteq> prompt_second symptoms"
proof -
  have "prompt_first symptoms \<noteq> prompt_second symptoms"
    by (simp add: prompt_first_def prompt_second_def)
  moreover have "get_diagnosis_first generate_content chosen symptoms = get_diagnosis generate_content' chosen' symptoms"
    unfolding get_diagnosis_first_def get_diagnosis_def Let_def assms ..
  ultimately show ?thesis by simp
qed

theorem get_diagnosis_definitions_agree_witness:
  "const_endpoint (Inr (PObj 1 ''Response'' [(''text'', PStr '' rest and fluids '')])) (PStr ''models/gemini-2.5-pro'') (prompt_first ''cough'')
     = const_endpoint (Inr (PObj 1 ''Response'' [(''text'', PStr '' rest and fluids '')])) (PStr ''models/gemini-2.5-pro'') (prompt_second ''cough'') \<and>
   get_diagnosis_first (const_endpoint (Inr (PObj 1 ''Response'' [(''text'', PStr '' rest and fluids '')]))) (PStr ''models/gemini-2.5-pro'') ''cough''
     = Inr (PStr ''rest and fluids'') \<and>
   get_diagnosis (const_endpoint (Inr (PObj 1 ''Response'' [(''text'', PStr '' rest and fluids '')]))) (PStr ''models/gemini-2.5-pro'') ''cough''
     = Inr (PStr ''rest and fluids'') \<and>
   prompt_first ''cough'' \<noteq> prompt_second ''cough''"
proof -
  let ?g = "const_endpoint (Inr (PObj 1 ''Response'' [(''text'', PStr '' rest and fluids '')]))"
  let ?m = "PStr ''models/gemini-2.5-pro''"
  have a: "?g ?m (prompt_first ''cough'') = ?g ?m (prompt_second ''cough'')"
    by (simp add: const_endpoint_def)
  have s: "strip '' rest and fluids '' = ''rest and fluids''"
    by (simp add: strip_def py_isspace_def)
  have "get_diagnosis ?g ?m ''cough'' = Inr (PStr ''rest and fluids'')"
    by (simp add: get_diagnosis_def const_endpoint_def s)
  with get_diagnosis_definitions_agree [of ?g ?m "''cough''" ?g ?m, OF a] a show ?thesis by simp
qed

section \<open>The chosen model during a session\<close>

lemma dict_set_true_subset: "dict_set_true d k = Inr d' \<Longrightarrow> set d' \<subseteq> insert k (set d)"
  by (cases k) (auto split: if_splits)

lemma entry_key_Some:
  "entry_key m = Inr (Some k) \<Longrightarrow> k = getattr m ''name'' PNone \<and> truthy k"
  by (auto simp: entry_key_def Let_def split: sum.splits bool.splits if_splits)

lemma build_valid_members:
  "build_valid ms f v = Inr v' \<Longrightarrow> k \<in> set v' \<Longrightarrow>
     k \<in> set v \<or> (\<exists>m \<in> set ms. entry_key m = Inr (Some k))"
proof (induction ms arbitrary: v)
  case Nil
  then show ?case by (cases f) simp_all
next
  case (Cons m ms)
  show ?case
  proof (cases "entry_key m")
    case (Inl e)
    with Cons.prems show ?thesis by (simp add: build_valid_Cons del: build_valid.simps)
  next
    case (Inr ok)
    show ?thesis
    proof (cases ok)
      case None
      with Inr Cons.prems Cons.IH [of v] show ?thesis
        by (simp add: build_valid_Cons del: build_valid.simps)
    next
      case (Some k')
      with Inr obtain v1 where v1: "dict_set_true v k' = Inr v1"
        using entry_key_Some_set by blast
      with Inr Some Cons.prems have "build_valid ms f v1 = Inr v'"
        by (simp add: build_valid_Cons del: build_valid.simps)
      from Cons.IH [OF this Cons.prems(2)] dict_set_true_subset [OF v1] Inr Some
      show ?thesis by auto
    qed
  qed
qed

lemma get_diagnosis_cong:
  "g m (prompt_second s) = g' m (prompt_second s) \<Longrightarrow> get_diagnosis g m s = get_diagnosis g' m s"
  by (simp add: get_diagnosis_def)

lemma diagnose_keeps_model: "CHOSEN_MODEL (diagnose g st typed) = CHOSEN_MODEL st"
  by (simp add: diagnose_def Let_def split: sum.splits pyval.splits)

lemma run_session_keeps_model: "CHOSEN_MODEL (run_session st presses) = CHOSEN_MODEL st"
proof (induction presses arbitrary: st)
  case Nil
  show ?case by simp
next
  case (Cons press presses)
  obtain g typed where "press = (g, typed)" by (cases press)
  with Cons.IH [of "diagnose g st typed"] show ?case
    by (simp add: diagnose_keeps_model)
qed

lemma diagnose_cong:
  assumes "\<forall>p. g (CHOSEN_MODEL st) p = g' (CHOSEN_MODEL st) p"
  shows "diagnose g st typed = diagnose g' st typed"
proof -
  have eq: "get_diagnosis g (CHOSEN_MODEL st) s = get_diagnosis g' (CHOSEN_MODEL st) s" for s
    using assms by (intro get_diagnosis_cong) simp
  show ?thesis by (simp only: diagnose_def eq)
qed

lemma preferred_nonempty: "p \<in> set PREFERRED_MODELS \<Longrightarrow> p \<noteq> []"
  by (auto simp: PREFERRED_MODELS_def)

lemma choose_returns_string:
  assumes "choose_best_model listing = Inr m"
    and "\<And>available failure e. listing = ListReturns available failure \<Longrightarrow> e \<in> set available \<Longrightarrow>
           getattr e ''name'' PNone = PNone \<or> (\<exists>s. getattr e ''name'' PNone = PStr s)"
  shows "\<exists>s. m = PStr s \<and> s \<noteq> []"
proof (cases listing)
  case (ListRaises e)
  with assms(1) show ?thesis by (auto simp: choose_best_model_def)
next
  case (ListReturns available failure)
  with assms(1) obtain valid where v: "build_valid available failure [] = Inr valid"
    by (auto simp: choose_best_model_def split: sum.splits)
  have keys: "\<exists>s. k = PStr s \<and> s \<noteq> []" if "k \<in> set valid" for k
  proof -
    from build_valid_members [OF v that] obtain e where e: "e \<in> set available" "entry_key e = Inr (Some k)"
      by auto
    from entry_key_Some [OF e(2)] assms(2) [OF ListReturns e(1)] show ?thesis by auto
  qed
  show ?thesis
  proof (cases "find (\<lambda>pref. dict_contains valid (PStr pref)) PREFERRED_MODELS")
    case (Some pref)
    then have "pref \<in> set PREFERRED_MODELS" by (auto simp: find_Some_iff)
    then have "pref \<noteq> []" by (rule preferred_nonempty)
    with Some v ListReturns assms(1) show ?thesis by (auto simp: choose_best_model_def)
  next
    case None
    show ?thesis
    proof (cases valid)
      case Nil
      with None v ListReturns assms(1) show ?thesis by (auto simp: choose_best_model_def)
    next
      case (Cons k ks)
      with keys [of k] None v ListReturns assms(1) show ?thesis by (auto simp: choose_best_model_def)
    qed
  qed
qed

text \<open>
  Claim C9, as amended. When every catalog entry's \<^verbatim>\<open>name\<close> attribute is absent,
  \<^verbatim>\<open>None\<close> or a string, every value that \<^verbatim>\<open>choose_best_model\<close> returns, after a
  failed fetch or from any such catalog, is a non-empty string. Start-up binds
  \<^verbatim>\<open>CHOSEN_MODEL\<close> to it, no sequence of requests changes \<^verbatim>\<open>CHOSEN_MODEL\<close>, and every
  request consults the generation endpoint at that model only: two endpoints that agree at
  the chosen model give the same result.
\<close>

theorem chosen_model_invariant:
  assumes "choose_best_model listing = Inr m"
    and "\<And>available failure e. listing = ListReturns available failure \<Longrightarrow> e \<in> set available \<Longrightarrow>
           getattr e ''name'' PNone = PNone \<or> (\<exists>s. getattr e ''name'' PNone = PStr s)"
  shows "(\<exists>s. m = PStr s \<and> s \<noteq> []) \<and>
         (\<exists>st. startup listing = Inr st \<and> CHOSEN_MODEL st = m \<and>
            (\<forall>presses. CHOSEN_MODEL (run_session st presses) = m) \<and>
            (\<forall>presses g g' typed. (\<forall>p. g m p = g' m p) \<longrightarrow>
               diagnose g (run_session st presses) typed = diagnose g' (run_session st presses) typed))"
proof -
  let ?st = "\<lparr>CHOSEN_MODEL = m, output_box = []\<rparr>"
  have s: "startup listing = Inr ?st"
    using assms(1) by (simp add: startup_def)
  have k: "CHOSEN_MODEL (run_session ?st presses) = m" for presses
    by (simp add: run_session_keeps_model)
  have "diagnose g (run_session ?st presses) typed = diagnose g' (run_session ?st presses) typed"
    if "\<forall>p. g m p = g' m p" for presses g g' typed
    using that by (intro diagnose_cong) (simp add: k)
  with s k choose_returns_string [OF assms] show ?thesis
    by (intro conjI exI [of _ ?st]) auto
qed

theorem chosen_model_invariant_witness:
  "choose_best_model (ListReturns
      [PObj 1 ''Model'' [(''name'', PStr ''models/gemini-2.5-flash''), (''supported_generation_methods'', PList [PStr ''generateContent''])],
       PObj 2 ''Model'' [(''supported_generation_methods'', PList [PStr ''generateContent''])]] None)
     = Inr (PStr ''models/gemini-2.5-flash'') \<and>
   startup (ListReturns
      [PObj 1 ''Model'' [(''name'', PStr ''models/gemini-2.5-flash''), (''supported_generation_methods'', PList [PStr ''generateContent''])],
       PObj 2 ''Model'' [(''supported_generation_methods'', PList [PStr ''generateContent''])]] None)
     = Inr \<lparr>CHOSEN_MODEL = PStr ''models/gemini-2.5-flash'', output_box = []\<rparr> \<and>
   (\<forall>presses. CHOSEN_MODEL (run_session \<lparr>CHOSEN_MODEL = PStr ''models/gemini-2.5-flash'', output_box = []\<rparr> presses)
      = PStr ''models/gemini-2.5-flash'')"
proof -
  let ?a = "PObj 1 ''Model'' [(''name'', PStr ''models/gemini-2.5-flash''), (''supported_generation_methods'', PList [PStr ''generateContent''])]"
  let ?b = "PObj 2 ''Model'' [(''supported_generation_methods'', PList [PStr ''generateContent''])]"
  let ?m = "PStr ''models/gemini-2.5-flash''"
  have c: "choose_best_model (ListReturns [?a, ?b] None) = Inr ?m"
    by (simp add: choose_best_model_def dict_contains_def PREFERRED_MODELS_def)
  have n: "getattr e ''name'' PNone = PNone \<or> (\<exists>s. getattr e ''name'' PNone = PStr s)"
    if "ListReturns [?a, ?b] None = ListReturns available failure" "e \<in> set available" for available failure e
    using that by auto
  from chosen_model_invariant [of "ListReturns [?a, ?b] None" ?m, OF c n] c show ?thesis
    by (auto simp: startup_def)
qed

text \<open>
  The claim as first stated covers every catalog content. An entry whose \<^verbatim>\<open>name\<close> is the
  integer 7 and which supports \<^verbatim>\<open>generateContent\<close> passes \<^verbatim>\<open>if not name\<close>, is
  stored, and is returned: the chosen model is then no string.
\<close>

theorem choose_best_model_returns_int_name:
  "choose_best_model (ListReturns [PObj 1 ''Model'' [(''name'', PInt 7), (''supported_generation_methods'', PList [PStr ''generateContent''])]] None)
     = Inr (PInt 7)"
  by (simp add: choose_best_model_def dict_contains_def PREFERRED_MODELS_def)

end
